theory Spec2Isabelle
  imports Main
begin

section \<open>Objects, references and exceptions\<close>

text \<open>
  The trees of PyBST are built from mutable \<^verbatim>\<open>Node\<close> objects that point at each
  other through \<^verbatim>\<open>left\<close>, \<^verbatim>\<open>right\<close> and \<^verbatim>\<open>parent\<close>.  Several methods
  compare nodes by identity and leave parent links behind, so the model keeps an explicit
  store: a reference is an address, \<^verbatim>\<open>None\<close> is \<open>None\<close>, and a tree object is its
  store together with the \<^verbatim>\<open>Root\<close> attribute.

  One record stands for \<^verbatim>\<open>Node\<close>, \<^verbatim>\<open>AVLNode\<close> and \<^verbatim>\<open>RBNode\<close>: the fields
  \<open>height\<close> and \<open>balance\<close> are only read and written by the AVL methods, \<open>color\<close>
  only by the Red-Black methods (\<^verbatim>\<open>'r'\<close> is \<open>Red\<close>, \<^verbatim>\<open>'k'\<close> is \<open>Black\<close>).
  Keys are numbers (\<^verbatim>\<open>insert\<close> rejects everything else); the model takes integers.
\<close>

type_synonym ref = nat

datatype color = Red | Black

record 'v node =
  left :: "ref option"
  right :: "ref option"
  parent :: "ref option"
  key :: int
  val :: 'v
  height :: int
  balance :: int
  color :: color

record 'v tree =
  heap :: "ref \<Rightarrow> 'v node"
  Root :: "ref option"
  fresh :: ref

text \<open>
  The exceptions the methods can raise on the states they build, and \<open>NoReturn\<close> for a
  recursion or loop that has not come back within the given number of steps (every
  recursive method takes that number as its first argument).
\<close>

datatype error = AttributeError | NameError | UnboundLocalError | NoReturn

definition andthen :: "error + 'a \<Rightarrow> ('a \<Rightarrow> error + 'b) \<Rightarrow> error + 'b" where
  "andthen m f = (case m of Inl e \<Rightarrow> Inl e | Inr x \<Rightarrow> f x)"

text \<open>Attribute access on a possibly-\<^verbatim>\<open>None\<close> reference.\<close>

definition deref :: "ref option \<Rightarrow> error + ref" where
  "deref r = (case r of None \<Rightarrow> Inl AttributeError | Some x \<Rightarrow> Inr x)"

definition set_left :: "ref \<Rightarrow> ref option \<Rightarrow> 'v tree \<Rightarrow> 'v tree" where
  "set_left r x s = s\<lparr>heap := (heap s)(r := (heap s r)\<lparr>left := x\<rparr>)\<rparr>"

definition set_right :: "ref \<Rightarrow> ref option \<Rightarrow> 'v tree \<Rightarrow> 'v tree" where
  "set_right r x s = s\<lparr>heap := (heap s)(r := (heap s r)\<lparr>right := x\<rparr>)\<rparr>"

definition set_parent :: "ref \<Rightarrow> ref option \<Rightarrow> 'v tree \<Rightarrow> 'v tree" where
  "set_parent r x s = s\<lparr>heap := (heap s)(r := (heap s r)\<lparr>parent := x\<rparr>)\<rparr>"

definition set_key :: "ref \<Rightarrow> int \<Rightarrow> 'v tree \<Rightarrow> 'v tree" where
  "set_key r x s = s\<lparr>heap := (heap s)(r := (heap s r)\<lparr>key := x\<rparr>)\<rparr>"

definition set_val :: "ref \<Rightarrow> 'v \<Rightarrow> 'v tree \<Rightarrow> 'v tree" where
  "set_val r x s = s\<lparr>heap := (heap s)(r := (heap s r)\<lparr>val := x\<rparr>)\<rparr>"

definition set_height :: "ref \<Rightarrow> int \<Rightarrow> 'v tree \<Rightarrow> 'v tree" where
  "set_height r x s = s\<lparr>heap := (heap s)(r := (heap s r)\<lparr>height := x\<rparr>)\<rparr>"

definition set_balance :: "ref \<Rightarrow> int \<Rightarrow> 'v tree \<Rightarrow> 'v tree" where
  "set_balance r x s = s\<lparr>heap := (heap s)(r := (heap s r)\<lparr>balance := x\<rparr>)\<rparr>"

definition set_color :: "ref \<Rightarrow> color \<Rightarrow> 'v tree \<Rightarrow> 'v tree" where
  "set_color r x s = s\<lparr>heap := (heap s)(r := (heap s r)\<lparr>color := x\<rparr>)\<rparr>"

text \<open>
  \<^verbatim>\<open>Node(key,value)\<close>, \<^verbatim>\<open>AVLNode(key,value)\<close> and \<^verbatim>\<open>RBNode(key,value)\<close>: all
  links \<^verbatim>\<open>None\<close>, height and balance 0, colour red.  The new object gets the next unused
  address.
\<close>

definition new_node :: "int \<Rightarrow> 'v \<Rightarrow> 'v node" where
  "new_node k v = \<lparr>left = None, right = None, parent = None, key = k, val = v,
                   height = 0, balance = 0, color = Red\<rparr>"

definition alloc :: "int \<Rightarrow> 'v \<Rightarrow> 'v tree \<Rightarrow> ref \<times> 'v tree" where
  "alloc k v s = (fresh s, s\<lparr>heap := (heap s)(fresh s := new_node k v), fresh := Suc (fresh s)\<rparr>)"

text \<open>\<^verbatim>\<open>BSTree()\<close> and its subclasses' constructors without a sequence: \<^verbatim>\<open>self.Root = None\<close>.\<close>

definition empty_tree :: "'v \<Rightarrow> 'v tree" where
  "empty_tree d = \<lparr>heap = (\<lambda>_. new_node 0 d), Root = None, fresh = 0\<rparr>"

datatype variant = BST | AVL | RB | Splay

section \<open>bstree.py: the methods every variant shares\<close>

text \<open>\<^verbatim>\<open>BSTree.get_node(key, start)\<close>.\<close>

fun get_node :: "nat \<Rightarrow> 'v tree \<Rightarrow> int \<Rightarrow> ref option \<Rightarrow> error + ref option" where
  "get_node 0 s k start = Inl NoReturn"
| "get_node (Suc n) s k None = Inr None"
| "get_node (Suc n) s k (Some r) =
     (if k = key (heap s r) then Inr (Some r)
      else if k > key (heap s r) then get_node n s k (right (heap s r))
      else get_node n s k (left (heap s r)))"

text \<open>
  \<^verbatim>\<open>BSTree.preorder\<close>, \<^verbatim>\<open>inorder\<close>, \<^verbatim>\<open>postorder\<close> with the two optional
  arguments given: \<^verbatim>\<open>elements.append(node)\<close> and the reads of \<^verbatim>\<open>node.left\<close> and
  \<^verbatim>\<open>node.right\<close>, which raise on \<^verbatim>\<open>None\<close>.
\<close>

fun preorder_from :: "nat \<Rightarrow> 'v tree \<Rightarrow> ref option \<Rightarrow> ref list \<Rightarrow> error + ref list" where
  "preorder_from 0 s node elements = Inl NoReturn"
| "preorder_from (Suc n) s None elements = Inl AttributeError"
| "preorder_from (Suc n) s (Some r) elements =
     andthen (if left (heap s r) \<noteq> None then preorder_from n s (left (heap s r)) (elements @ [r])
              else Inr (elements @ [r])) (\<lambda>elements1.
       if right (heap s r) \<noteq> None then preorder_from n s (right (heap s r)) elements1
       else Inr elements1)"

fun inorder_from :: "nat \<Rightarrow> 'v tree \<Rightarrow> ref option \<Rightarrow> ref list \<Rightarrow> error + ref list" where
  "inorder_from 0 s node elements = Inl NoReturn"
| "inorder_from (Suc n) s None elements = Inl AttributeError"
| "inorder_from (Suc n) s (Some r) elements =
     andthen (if left (heap s r) \<noteq> None then inorder_from n s (left (heap s r)) elements
              else Inr elements) (\<lambda>elements1.
       if right (heap s r) \<noteq> None then inorder_from n s (right (heap s r)) (elements1 @ [r])
       else Inr (elements1 @ [r]))"

fun postorder_from :: "nat \<Rightarrow> 'v tree \<Rightarrow> ref option \<Rightarrow> ref list \<Rightarrow> error + ref list" where
  "postorder_from 0 s node elements = Inl NoReturn"
| "postorder_from (Suc n) s None elements = Inl AttributeError"
| "postorder_from (Suc n) s (Some r) elements =
     andthen (if left (heap s r) \<noteq> None then postorder_from n s (left (heap s r)) elements
              else Inr elements) (\<lambda>elements1.
     andthen (if right (heap s r) \<noteq> None then postorder_from n s (right (heap s r)) elements1
              else Inr elements1) (\<lambda>elements2. Inr (elements2 @ [r])))"

text \<open>The public calls, without arguments: start at \<^verbatim>\<open>self.Root\<close> with an empty list.\<close>

definition preorder :: "nat \<Rightarrow> 'v tree \<Rightarrow> error + ref list" where
  "preorder fuel s = preorder_from fuel s (Root s) []"

definition inorder :: "nat \<Rightarrow> 'v tree \<Rightarrow> error + ref list" where
  "inorder fuel s = inorder_from fuel s (Root s) []"

definition postorder :: "nat \<Rightarrow> 'v tree \<Rightarrow> error + ref list" where
  "postorder fuel s = postorder_from fuel s (Root s) []"

text \<open>
  \<^verbatim>\<open>BSTree.levelorder\<close> passes the node it has popped, not its key, to
  \<^verbatim>\<open>get_node\<close>.  A node object never equals a number, and its order against every
  number is one fixed answer of the interpreter (\<open>node_gt\<close> below), so that search walks
  down one side and can only come back with \<^verbatim>\<open>None\<close>.
\<close>

fun get_node_of_object :: "nat \<Rightarrow> bool \<Rightarrow> 'v tree \<Rightarrow> ref option \<Rightarrow> error + ref option" where
  "get_node_of_object 0 node_gt s start = Inl NoReturn"
| "get_node_of_object (Suc n) node_gt s None = Inr None"
| "get_node_of_object (Suc n) node_gt s (Some r) =
     (if node_gt then get_node_of_object n node_gt s (right (heap s r))
      else get_node_of_object n node_gt s (left (heap s r)))"

text \<open>
  The loop of \<^verbatim>\<open>levelorder\<close>: \<^verbatim>\<open>q.pop()\<close> takes the last element,
  \<^verbatim>\<open>q.appendleft\<close> adds in front.
\<close>

fun levelorder_loop ::
  "nat \<Rightarrow> bool \<Rightarrow> 'v tree \<Rightarrow> ref option list \<Rightarrow> ref option list \<Rightarrow> error + ref option list" where
  "levelorder_loop 0 node_gt s q lst = Inl NoReturn"
| "levelorder_loop (Suc n) node_gt s q lst =
     (if length q = 0 then Inr lst
      else
        andthen (get_node_of_object (Suc n) node_gt s (Root s)) (\<lambda>visit.
        andthen (deref visit) (\<lambda>vr.
          let q1 = butlast q;
              q2 = (if left (heap s vr) \<noteq> None then left (heap s vr) # q1 else q1);
              q3 = (if right (heap s vr) \<noteq> None then right (heap s vr) # q2 else q2)
          in levelorder_loop n node_gt s q3 (lst @ [last q]))))"

text \<open>
  \<^verbatim>\<open>levelorder\<close> of each class: the three subclasses call
  \<^verbatim>\<open>BSTree.levelorder(self,*args)\<close> in a method that has no \<^verbatim>\<open>args\<close>.
\<close>

definition levelorder :: "variant \<Rightarrow> nat \<Rightarrow> bool \<Rightarrow> 'v tree \<Rightarrow> error + ref option list" where
  "levelorder v fuel node_gt s =
     (if v = BST then levelorder_loop fuel node_gt s [Root s] [] else Inl NameError)"

text \<open>\<^verbatim>\<open>BSTree.get_max(node)\<close> and \<^verbatim>\<open>BSTree.get_min(node)\<close>.\<close>

fun get_max :: "nat \<Rightarrow> 'v tree \<Rightarrow> ref option \<Rightarrow> error + ref" where
  "get_max 0 s node = Inl NoReturn"
| "get_max (Suc n) s None = Inl AttributeError"
| "get_max (Suc n) s (Some r) =
     (if right (heap s r) = None then Inr r else get_max n s (right (heap s r)))"

fun get_min :: "nat \<Rightarrow> 'v tree \<Rightarrow> ref option \<Rightarrow> error + ref" where
  "get_min 0 s node = Inl NoReturn"
| "get_min (Suc n) s None = Inl AttributeError"
| "get_min (Suc n) s (Some r) =
     (if left (heap s r) = None then Inr r else get_min n s (left (heap s r)))"

text \<open>\<^verbatim>\<open>BSTree.get_element_count(node)\<close>.\<close>

fun get_element_count :: "nat \<Rightarrow> 'v tree \<Rightarrow> ref option \<Rightarrow> error + nat" where
  "get_element_count 0 s node = Inl NoReturn"
| "get_element_count (Suc n) s None = Inr 0"
| "get_element_count (Suc n) s (Some r) =
     andthen (if left (heap s r) \<noteq> None then get_element_count n s (left (heap s r))
              else Inr 0) (\<lambda>l.
     andthen (if right (heap s r) \<noteq> None then get_element_count n s (right (heap s r))
              else Inr 0) (\<lambda>r. Inr (1 + l + r)))"

text \<open>
  \<^verbatim>\<open>BSTree.get_height(node)\<close>: 0 for \<^verbatim>\<open>None\<close> and for a node without children,
  otherwise one more than the larger height of the two sides.
\<close>

fun get_height :: "nat \<Rightarrow> 'v tree \<Rightarrow> ref option \<Rightarrow> error + int" where
  "get_height 0 s node = Inl NoReturn"
| "get_height (Suc n) s None = Inr 0"
| "get_height (Suc n) s (Some r) =
     (if left (heap s r) = None \<and> right (heap s r) = None then Inr 0
      else andthen (get_height n s (left (heap s r))) (\<lambda>hl.
           andthen (get_height n s (right (heap s r))) (\<lambda>hr. Inr (1 + max hl hr))))"

text \<open>\<^verbatim>\<open>BSTree._switch_nodes(node1,node2)\<close>, one assignment after the other.\<close>

definition switch_nodes :: "'v tree \<Rightarrow> ref \<Rightarrow> ref \<Rightarrow> error + 'v tree" where
  "switch_nodes s node1 node2 =
     (let temp_key = key (heap s node1); temp_value = val (heap s node1) in
      andthen (deref (Root s)) (\<lambda>rt.
        if key (heap s node1) = key (heap s rt) then
          (let s1 = set_key rt (key (heap s node2)) s;
               s2 = set_val rt (val (heap s1 node2)) s1;
               s3 = set_key node2 temp_key s2
           in Inr (set_val node2 temp_value s3))
        else if key (heap s node2) = key (heap s rt) then
          (let s1 = set_key node1 (key (heap s rt)) s;
               s2 = set_key rt temp_key s1
           in Inr (set_val rt temp_value s2))
        else
          (let s1 = set_key node1 (key (heap s node2)) s;
               s2 = set_val node1 (val (heap s1 node2)) s1;
               s3 = set_key node2 temp_key s2
           in Inr (set_val node2 temp_value s3))))"

section \<open>bstree.py: insert and delete of the plain tree\<close>

text \<open>
  \<^verbatim>\<open>BSTree.insert(key,value,parent)\<close>, the recursive descent.  The source builds a
  \<^verbatim>\<open>Node\<close> at every level and links only the last one; the model allocates that one.
\<close>

fun bst_insert_at :: "nat \<Rightarrow> 'v tree \<Rightarrow> int \<Rightarrow> 'v \<Rightarrow> ref \<Rightarrow> error + 'v tree" where
  "bst_insert_at 0 s k v p = Inl NoReturn"
| "bst_insert_at (Suc n) s k v p =
     (if k > key (heap s p) then
        (case right (heap s p) of
           None \<Rightarrow> (let (child, s1) = alloc k v s
                    in Inr (set_parent child (Some p) (set_right p (Some child) s1)))
         | Some r \<Rightarrow> bst_insert_at n s k v r)
      else
        (case left (heap s p) of
           None \<Rightarrow> (let (child, s1) = alloc k v s
                    in Inr (set_parent child (Some p) (set_left p (Some child) s1)))
         | Some l \<Rightarrow> bst_insert_at n s k v l))"

text \<open>\<^verbatim>\<open>BSTree.insert(key,value)\<close>.\<close>

definition bst_insert :: "nat \<Rightarrow> 'v tree \<Rightarrow> int \<Rightarrow> 'v \<Rightarrow> error + 'v tree" where
  "bst_insert fuel s k v =
     (case Root s of
        None \<Rightarrow> (let (r, s1) = alloc k v s in Inr (s1\<lparr>Root := Some r\<rparr>))
      | Some rt \<Rightarrow>
          andthen (get_node fuel s k (Root s)) (\<lambda>found.
            if found = None then bst_insert_at fuel s k v rt else Inr s))"

text \<open>\<^verbatim>\<open>BSTree._delete_leaf(node)\<close>: nothing happens when the node has no parent.\<close>

definition bst_delete_leaf :: "'v tree \<Rightarrow> ref \<Rightarrow> error + 'v tree" where
  "bst_delete_leaf s node =
     (case parent (heap s node) of
        None \<Rightarrow> Inr s
      | Some par_node \<Rightarrow>
          if left (heap s par_node) = Some node then Inr (set_left par_node None s)
          else Inr (set_right par_node None s))"

text \<open>
  \<^verbatim>\<open>BSTree._delete_leaf_parent(node)\<close>.  The node that becomes the root keeps the
  parent link it had.  \<^verbatim>\<open>AVLTree\<close> and \<^verbatim>\<open>SplayTree\<close> repeat these statements
  in their own \<^verbatim>\<open>_delete_leaf_parent\<close>.
\<close>

definition bst_delete_leaf_parent :: "'v tree \<Rightarrow> ref \<Rightarrow> error + 'v tree" where
  "bst_delete_leaf_parent s node =
     andthen (deref (Root s)) (\<lambda>rt.
       if key (heap s node) = key (heap s rt) then
         (if right (heap s node) \<noteq> None
          then Inr (set_right node None (s\<lparr>Root := right (heap s node)\<rparr>))
          else Inr (set_left node None (s\<lparr>Root := left (heap s node)\<rparr>)))
       else
         andthen (deref (parent (heap s node))) (\<lambda>par_node.
           if right (heap s par_node) = Some node then
             (if right (heap s node) \<noteq> None then
                (let s1 = set_right par_node (right (heap s node)) s in
                 andthen (deref (right (heap s1 par_node))) (\<lambda>c.
                   Inr (set_right node None (set_parent c (Some par_node) s1))))
              else
                (let s1 = set_right par_node (left (heap s node)) s in
                 andthen (deref (right (heap s1 par_node))) (\<lambda>c.
                   Inr (set_left node None (set_parent c (Some par_node) s1)))))
           else
             (if right (heap s node) \<noteq> None then
                (let s1 = set_left par_node (right (heap s node)) s in
                 andthen (deref (left (heap s1 par_node))) (\<lambda>c.
                   Inr (set_right node None (set_parent c (Some par_node) s1))))
              else
                (let s1 = set_left par_node (left (heap s node)) s in
                 andthen (deref (left (heap s1 par_node))) (\<lambda>c.
                   Inr (set_left node None (set_parent c (Some par_node) s1)))))))"

section \<open>Tree rotations\<close>

text \<open>
  \<^verbatim>\<open>_rotate_left(pivot)\<close> as \<^verbatim>\<open>SplayTree\<close> and \<^verbatim>\<open>RBTree\<close> have it, and the
  first part of \<^verbatim>\<open>AVLTree._rotate_left\<close>.  The parent is only relinked when one of its
  children carries the pivot's key, and \<^verbatim>\<open>self.Root\<close> only changes when the pivot has
  no parent link.
\<close>

definition rotate_left :: "'v tree \<Rightarrow> ref \<Rightarrow> error + 'v tree" where
  "rotate_left s old_root =
     (let par_node = parent (heap s old_root) in
      andthen (deref (right (heap s old_root))) (\<lambda>new_root.
        let s1 = set_right old_root (left (heap s new_root)) s;
            s2 = (case right (heap s1 old_root) of
                    Some c \<Rightarrow> set_parent c (Some old_root) s1
                  | None \<Rightarrow> s1);
            s3 = set_left new_root (Some old_root) s2;
            s4 = set_parent old_root (Some new_root) s3
        in case par_node of
             None \<Rightarrow> Inr (set_parent new_root None (s4\<lparr>Root := Some new_root\<rparr>))
           | Some p \<Rightarrow>
               (case right (heap s4 p) of
                  Some pr \<Rightarrow>
                    if key (heap s4 pr) = key (heap s4 old_root)
                    then Inr (set_parent new_root (Some p) (set_right p (Some new_root) s4))
                    else (case left (heap s4 p) of
                            Some pl \<Rightarrow>
                              if key (heap s4 pl) = key (heap s4 old_root)
                              then Inr (set_parent new_root (Some p) (set_left p (Some new_root) s4))
                              else Inr s4
                          | None \<Rightarrow> Inr s4)
                | None \<Rightarrow>
                    (case left (heap s4 p) of
                       Some pl \<Rightarrow>
                         if key (heap s4 pl) = key (heap s4 old_root)
                         then Inr (set_parent new_root (Some p) (set_left p (Some new_root) s4))
                         else Inr s4
                     | None \<Rightarrow> Inr s4))))"

text \<open>\<^verbatim>\<open>_rotate_right(pivot)\<close> of \<^verbatim>\<open>SplayTree\<close>, and the first part of \<^verbatim>\<open>AVLTree\<close>'s.\<close>

definition rotate_right :: "'v tree \<Rightarrow> ref \<Rightarrow> error + 'v tree" where
  "rotate_right s old_root =
     (let par_node = parent (heap s old_root) in
      andthen (deref (left (heap s old_root))) (\<lambda>new_root.
        let s1 = set_left old_root (right (heap s new_root)) s;
            s2 = (case left (heap s1 old_root) of
                    Some c \<Rightarrow> set_parent c (Some old_root) s1
                  | None \<Rightarrow> s1);
            s3 = set_right new_root (Some old_root) s2;
            s4 = set_parent old_root (Some new_root) s3
        in case par_node of
             None \<Rightarrow> Inr (set_parent new_root None (s4\<lparr>Root := Some new_root\<rparr>))
           | Some p \<Rightarrow>
               (case right (heap s4 p) of
                  Some pr \<Rightarrow>
                    if key (heap s4 pr) = key (heap s4 old_root)
                    then Inr (set_parent new_root (Some p) (set_right p (Some new_root) s4))
                    else (case left (heap s4 p) of
                            Some pl \<Rightarrow>
                              if key (heap s4 pl) = key (heap s4 old_root)
                              then Inr (set_parent new_root (Some p) (set_left p (Some new_root) s4))
                              else Inr s4
                          | None \<Rightarrow> Inr s4)
                | None \<Rightarrow>
                    (case left (heap s4 p) of
                       Some pl \<Rightarrow>
                         if key (heap s4 pl) = key (heap s4 old_root)
                         then Inr (set_parent new_root (Some p) (set_left p (Some new_root) s4))
                         else Inr s4
                     | None \<Rightarrow> Inr s4))))"

section \<open>avltree.py\<close>

text \<open>\<^verbatim>\<open>AVLTree.get_balance(node)\<close>, from the stored heights of the children.\<close>

definition get_balance :: "'v tree \<Rightarrow> ref option \<Rightarrow> error + int" where
  "get_balance s node =
     andthen (deref node) (\<lambda>r.
       Inr ((case left (heap s r) of Some l \<Rightarrow> height (heap s l) | None \<Rightarrow> - 1) -
            (case right (heap s r) of Some l \<Rightarrow> height (heap s l) | None \<Rightarrow> - 1)))"

text \<open>
  \<^verbatim>\<open>AVLTree._update_height(node)\<close> and \<^verbatim>\<open>_update_balance(node)\<close>: both walk up the
  parent links and stop at the first node whose attribute is already right.
\<close>

fun update_height :: "nat \<Rightarrow> 'v tree \<Rightarrow> ref option \<Rightarrow> error + 'v tree" where
  "update_height 0 s node = Inl NoReturn"
| "update_height (Suc n) s None = Inr s"
| "update_height (Suc n) s (Some r) =
     andthen (get_height (Suc n) s (Some r)) (\<lambda>new_height.
       if height (heap s r) = new_height then Inr s
       else update_height n (set_height r new_height s) (parent (heap s r)))"

fun update_balance :: "nat \<Rightarrow> 'v tree \<Rightarrow> ref option \<Rightarrow> error + 'v tree" where
  "update_balance 0 s node = Inl NoReturn"
| "update_balance (Suc n) s None = Inr s"
| "update_balance (Suc n) s (Some r) =
     andthen (get_balance s (Some r)) (\<lambda>new_balance.
       if balance (heap s r) = new_balance then Inr s
       else update_balance n (set_balance r new_balance s) (parent (heap s r)))"

text \<open>\<^verbatim>\<open>AVLTree._rotate_left(pivot)\<close> and \<^verbatim>\<open>_rotate_right(pivot)\<close>.\<close>

definition avl_rotate_left :: "nat \<Rightarrow> 'v tree \<Rightarrow> ref \<Rightarrow> error + 'v tree" where
  "avl_rotate_left fuel s pivot =
     (let par_node = parent (heap s pivot) in
      andthen (deref (right (heap s pivot))) (\<lambda>new_root.
      andthen (rotate_left s pivot) (\<lambda>s1.
      andthen (update_height fuel s1 (left (heap s1 new_root))) (\<lambda>s2.
      andthen (update_height fuel s2 par_node) (\<lambda>s3.
      andthen (update_balance fuel s3 (left (heap s3 new_root))) (\<lambda>s4.
        update_balance fuel s4 par_node))))))"

definition avl_rotate_right :: "nat \<Rightarrow> 'v tree \<Rightarrow> ref \<Rightarrow> error + 'v tree" where
  "avl_rotate_right fuel s pivot =
     (let par_node = parent (heap s pivot) in
      andthen (deref (left (heap s pivot))) (\<lambda>new_root.
      andthen (rotate_right s pivot) (\<lambda>s1.
      andthen (update_height fuel s1 (right (heap s1 new_root))) (\<lambda>s2.
      andthen (update_height fuel s2 par_node) (\<lambda>s3.
      andthen (update_balance fuel s3 (right (heap s3 new_root))) (\<lambda>s4.
        update_balance fuel s4 par_node))))))"

text \<open>\<^verbatim>\<open>AVLTree._balance(pivot)\<close>.\<close>

definition avl_balance :: "nat \<Rightarrow> 'v tree \<Rightarrow> ref \<Rightarrow> error + 'v tree" where
  "avl_balance fuel s pivot =
     andthen (get_balance s (Some pivot)) (\<lambda>weight.
       if weight = - 2 then
         andthen (get_balance s (right (heap s pivot))) (\<lambda>b.
           if b = - 1 \<or> b = 0 then avl_rotate_left fuel s pivot
           else if b = 1 then
             andthen (deref (right (heap s pivot))) (\<lambda>r.
             andthen (avl_rotate_right fuel s r) (\<lambda>s1. avl_rotate_left fuel s1 pivot))
           else Inr s)
       else if weight = 2 then
         andthen (get_balance s (left (heap s pivot))) (\<lambda>b.
           if b = 1 \<or> b = 0 then avl_rotate_right fuel s pivot
           else if b = - 1 then
             andthen (deref (left (heap s pivot))) (\<lambda>l.
             andthen (avl_rotate_left fuel s l) (\<lambda>s1. avl_rotate_right fuel s1 pivot))
           else Inr s)
       else Inr s)"

text \<open>
  The loop \<^verbatim>\<open>while node and abs(node.balance) <= 1: node = node.parent\<close> of
  \<^verbatim>\<open>AVLTree.insert\<close>, \<^verbatim>\<open>_delete_leaf\<close> and \<^verbatim>\<open>_delete_leaf_parent\<close>, and the
  call \<^verbatim>\<open>self._balance(node)\<close> that follows it when a node is left.
\<close>

fun first_unbalanced :: "nat \<Rightarrow> 'v tree \<Rightarrow> ref option \<Rightarrow> error + ref option" where
  "first_unbalanced 0 s node = Inl NoReturn"
| "first_unbalanced (Suc n) s None = Inr None"
| "first_unbalanced (Suc n) s (Some r) =
     (if \<bar>balance (heap s r)\<bar> \<le> 1 then first_unbalanced n s (parent (heap s r))
      else Inr (Some r))"

definition balance_upwards :: "nat \<Rightarrow> 'v tree \<Rightarrow> ref option \<Rightarrow> error + 'v tree" where
  "balance_upwards fuel s start =
     andthen (first_unbalanced fuel s start) (\<lambda>node.
       case node of None \<Rightarrow> Inr s | Some r \<Rightarrow> avl_balance fuel s r)"

text \<open>\<^verbatim>\<open>AVLTree.insert(key,value,parent)\<close> and \<^verbatim>\<open>AVLTree.insert(key,value)\<close>.\<close>

fun avl_insert_at :: "nat \<Rightarrow> 'v tree \<Rightarrow> int \<Rightarrow> 'v \<Rightarrow> ref \<Rightarrow> error + 'v tree" where
  "avl_insert_at 0 s k v p = Inl NoReturn"
| "avl_insert_at (Suc n) s k v p =
     (if k > key (heap s p) then
        (case right (heap s p) of
           None \<Rightarrow>
             (let (child, s1) = alloc k v s;
                  s2 = set_parent child (Some p) (set_right p (Some child) s1)
              in andthen (update_height (Suc n) s2 (Some p)) (\<lambda>s3.
                 andthen (update_balance (Suc n) s3 (Some p)) (\<lambda>s4.
                   balance_upwards (Suc n) s4 (Some child))))
         | Some r \<Rightarrow> avl_insert_at n s k v r)
      else
        (case left (heap s p) of
           None \<Rightarrow>
             (let (child, s1) = alloc k v s;
                  s2 = set_parent child (Some p) (set_left p (Some child) s1)
              in andthen (update_height (Suc n) s2 (Some p)) (\<lambda>s3.
                 andthen (update_balance (Suc n) s3 (Some p)) (\<lambda>s4.
                   balance_upwards (Suc n) s4 (Some child))))
         | Some l \<Rightarrow> avl_insert_at n s k v l))"

definition avl_insert :: "nat \<Rightarrow> 'v tree \<Rightarrow> int \<Rightarrow> 'v \<Rightarrow> error + 'v tree" where
  "avl_insert fuel s k v =
     (case Root s of
        None \<Rightarrow> (let (r, s1) = alloc k v s in Inr (s1\<lparr>Root := Some r\<rparr>))
      | Some rt \<Rightarrow>
          andthen (get_node fuel s k (Root s)) (\<lambda>found.
            if found = None then avl_insert_at fuel s k v rt else Inr s))"

text \<open>\<^verbatim>\<open>AVLTree._delete_leaf(node)\<close> and \<^verbatim>\<open>AVLTree._delete_leaf_parent(node)\<close>.\<close>

definition avl_delete_leaf :: "nat \<Rightarrow> 'v tree \<Rightarrow> ref \<Rightarrow> error + 'v tree" where
  "avl_delete_leaf fuel s node =
     (case parent (heap s node) of
        None \<Rightarrow> Inr (s\<lparr>Root := None\<rparr>)
      | Some par_node \<Rightarrow>
          (let s1 = (if left (heap s par_node) = Some node then set_left par_node None s
                     else set_right par_node None s)
           in andthen (update_height fuel s1 (Some par_node)) (\<lambda>s2.
              andthen (update_balance fuel s2 (Some par_node)) (\<lambda>s3.
                balance_upwards fuel s3 (Some par_node)))))"

definition avl_delete_leaf_parent :: "nat \<Rightarrow> 'v tree \<Rightarrow> ref \<Rightarrow> error + 'v tree" where
  "avl_delete_leaf_parent fuel s node =
     (let par_node = parent (heap s node) in
      andthen (bst_delete_leaf_parent s node) (\<lambda>s1.
      andthen (update_height fuel s1 par_node) (\<lambda>s2.
      andthen (update_balance fuel s2 par_node) (\<lambda>s3.
        balance_upwards fuel s3 par_node))))"

section \<open>rbtree.py\<close>

text \<open>
  \<^verbatim>\<open>RBTree._rotate_left\<close> is \<open>rotate_left\<close>; \<^verbatim>\<open>RBTree._rotate_right\<close> does
  nothing when the pivot has no left child.
\<close>

definition rb_rotate_right :: "'v tree \<Rightarrow> ref \<Rightarrow> error + 'v tree" where
  "rb_rotate_right s pivot =
     (if left (heap s pivot) = None then Inr s else rotate_right s pivot)"

text \<open>
  \<^verbatim>\<open>RBTree._insert_case_five(child)\<close> and \<^verbatim>\<open>_insert_case_four(child)\<close>.  Case
  four hands on \<^verbatim>\<open>node.left\<close> or \<^verbatim>\<open>node.right\<close>, which may be \<^verbatim>\<open>None\<close>.
\<close>

definition insert_case_five :: "'v tree \<Rightarrow> ref option \<Rightarrow> error + 'v tree" where
  "insert_case_five s child =
     andthen (deref child) (\<lambda>node.
     andthen (deref (parent (heap s node))) (\<lambda>par_node.
     andthen (deref (parent (heap s par_node))) (\<lambda>grand_node.
       if left (heap s par_node) = Some node then
         rb_rotate_right (set_color par_node Black (set_color grand_node Red s)) grand_node
       else if right (heap s par_node) = Some node then
         rotate_left (set_color par_node Black (set_color grand_node Red s)) grand_node
       else Inr s)))"

definition insert_case_four :: "'v tree \<Rightarrow> ref \<Rightarrow> error + 'v tree" where
  "insert_case_four s node =
     andthen (deref (parent (heap s node))) (\<lambda>par_node.
     andthen (deref (parent (heap s par_node))) (\<lambda>grand_node.
       if left (heap s grand_node) = Some par_node \<and> right (heap s par_node) = Some node then
         andthen (rotate_left s par_node) (\<lambda>s1. insert_case_five s1 (left (heap s1 node)))
       else if right (heap s grand_node) = Some par_node \<and> left (heap s par_node) = Some node then
         andthen (rb_rotate_right s par_node) (\<lambda>s1. insert_case_five s1 (right (heap s1 node)))
       else insert_case_five s (Some node)))"

text \<open>
  \<^verbatim>\<open>_insert_case_one\<close>, \<^verbatim>\<open>_insert_case_two\<close> and \<^verbatim>\<open>_insert_case_three\<close> call
  each other: case three starts again at the grandparent.
\<close>

fun insert_case_one :: "nat \<Rightarrow> 'v tree \<Rightarrow> ref \<Rightarrow> error + 'v tree"
  and insert_case_two :: "nat \<Rightarrow> 'v tree \<Rightarrow> ref \<Rightarrow> error + 'v tree"
  and insert_case_three :: "nat \<Rightarrow> 'v tree \<Rightarrow> ref \<Rightarrow> error + 'v tree" where
  "insert_case_one 0 s node = Inl NoReturn"
| "insert_case_one (Suc n) s node =
     (case parent (heap s node) of
        None \<Rightarrow> andthen (deref (Root s)) (\<lambda>rt. Inr (set_color rt Black s))
      | Some par_node \<Rightarrow> insert_case_two n s node)"
| "insert_case_two n s node =
     andthen (deref (parent (heap s node))) (\<lambda>par_node.
       if color (heap s par_node) = Red then insert_case_three n s node else Inr s)"
| "insert_case_three n s node =
     andthen (deref (parent (heap s node))) (\<lambda>par_node.
     andthen (deref (parent (heap s par_node))) (\<lambda>grand_node.
       let uncle = (if left (heap s grand_node) = Some par_node then right (heap s grand_node)
                    else left (heap s grand_node))
       in case uncle of
            None \<Rightarrow> insert_case_four s node
          | Some u \<Rightarrow>
              if color (heap s u) = Red then
                insert_case_one n
                  (set_color u Black (set_color par_node Black (set_color grand_node Red s)))
                  grand_node
              else insert_case_four s node))"

text \<open>\<^verbatim>\<open>RBTree.insert(key,value,parent)\<close> and \<^verbatim>\<open>RBTree.insert(key,value)\<close>.\<close>

fun rb_insert_at :: "nat \<Rightarrow> 'v tree \<Rightarrow> int \<Rightarrow> 'v \<Rightarrow> ref \<Rightarrow> error + 'v tree" where
  "rb_insert_at 0 s k v p = Inl NoReturn"
| "rb_insert_at (Suc n) s k v p =
     (if k > key (heap s p) then
        (case right (heap s p) of
           None \<Rightarrow>
             (let (child, s1) = alloc k v s;
                  s2 = set_parent child (Some p) (set_right p (Some child) s1)
              in if color (heap s2 p) = Red then insert_case_one (Suc n) s2 child else Inr s2)
         | Some r \<Rightarrow> rb_insert_at n s k v r)
      else
        (case left (heap s p) of
           None \<Rightarrow>
             (let (child, s1) = alloc k v s;
                  s2 = set_parent child (Some p) (set_left p (Some child) s1)
              in if color (heap s2 p) = Red then insert_case_one (Suc n) s2 child else Inr s2)
         | Some l \<Rightarrow> rb_insert_at n s k v l))"

definition rb_insert :: "nat \<Rightarrow> 'v tree \<Rightarrow> int \<Rightarrow> 'v \<Rightarrow> error + 'v tree" where
  "rb_insert fuel s k v =
     (case Root s of
        None \<Rightarrow> (let (r, s1) = alloc k v s in Inr (set_color r Black (s1\<lparr>Root := Some r\<rparr>)))
      | Some rt \<Rightarrow>
          andthen (get_node fuel s k (Root s)) (\<lambda>found.
            if found = None then rb_insert_at fuel s k v rt else Inr s))"

text \<open>
  The opening lines the delete cases two to six share: the sibling of \<^verbatim>\<open>node\<close> under
  \<^verbatim>\<open>par_node\<close> (the name \<^verbatim>\<open>sib_node\<close> stays unbound when \<^verbatim>\<open>node\<close> is neither
  child), and the colours of the sibling and of its children, an absent one being black.
\<close>

definition sibling :: "'v tree \<Rightarrow> ref option \<Rightarrow> ref \<Rightarrow> error + ref option" where
  "sibling s node par_node =
     (if left (heap s par_node) = node then Inr (right (heap s par_node))
      else if right (heap s par_node) = node then Inr (left (heap s par_node))
      else Inl UnboundLocalError)"

definition color_or_black :: "'v tree \<Rightarrow> ref option \<Rightarrow> color" where
  "color_or_black s r = (case r of None \<Rightarrow> Black | Some x \<Rightarrow> color (heap s x))"

definition sib_color :: "'v tree \<Rightarrow> ref option \<Rightarrow> color" where
  "sib_color s sib_node = color_or_black s sib_node"

definition sib_left_color :: "'v tree \<Rightarrow> ref option \<Rightarrow> color" where
  "sib_left_color s sib_node =
     (case sib_node of None \<Rightarrow> Black | Some sb \<Rightarrow> color_or_black s (left (heap s sb)))"

definition sib_right_color :: "'v tree \<Rightarrow> ref option \<Rightarrow> color" where
  "sib_right_color s sib_node =
     (case sib_node of None \<Rightarrow> Black | Some sb \<Rightarrow> color_or_black s (right (heap s sb)))"

text \<open>\<^verbatim>\<open>RBTree._delete_case_six(child,parent)\<close>.\<close>

definition delete_case_six :: "'v tree \<Rightarrow> ref option \<Rightarrow> ref \<Rightarrow> error + 'v tree" where
  "delete_case_six s node par_node =
     andthen (sibling s node par_node) (\<lambda>sib_node.
       if left (heap s par_node) = node \<and> sib_color s sib_node = Black
          \<and> sib_right_color s sib_node = Red then
         andthen (deref sib_node) (\<lambda>sb.
           let s1 = set_color sb (color (heap s par_node)) s;
               s2 = set_color par_node Black s1
           in andthen (deref (right (heap s2 sb))) (\<lambda>sr.
                rotate_left (set_color sr Black s2) par_node))
       else if right (heap s par_node) = node \<and> sib_color s sib_node = Black
          \<and> sib_left_color s sib_node = Red then
         andthen (deref sib_node) (\<lambda>sb.
           let s1 = set_color sb (color (heap s par_node)) s;
               s2 = set_color par_node Black s1
           in andthen (deref (left (heap s2 sb))) (\<lambda>sl.
                rb_rotate_right (set_color sl Black s2) par_node))
       else Inr s)"

text \<open>\<^verbatim>\<open>RBTree._delete_case_five(child,parent)\<close>.\<close>

definition delete_case_five :: "'v tree \<Rightarrow> ref option \<Rightarrow> ref \<Rightarrow> error + 'v tree" where
  "delete_case_five s node par_node =
     andthen (sibling s node par_node) (\<lambda>sib_node.
       if sib_color s sib_node = Black then
         (if left (heap s par_node) = node \<and> sib_right_color s sib_node = Black
             \<and> sib_left_color s sib_node = Red then
            andthen (deref sib_node) (\<lambda>sb.
              let s1 = set_color sb Red s in
              andthen (deref (left (heap s1 sb))) (\<lambda>sl.
              andthen (rb_rotate_right (set_color sl Black s1) sb) (\<lambda>s2.
                delete_case_six s2 node par_node)))
          else if right (heap s par_node) = node \<and> sib_left_color s sib_node = Black
             \<and> sib_right_color s sib_node = Red then
            andthen (deref sib_node) (\<lambda>sb.
              let s1 = set_color sb Red s in
              andthen (deref (right (heap s1 sb))) (\<lambda>sr.
              andthen (rotate_left (set_color sr Black s1) sb) (\<lambda>s2.
                delete_case_six s2 node par_node)))
          else delete_case_six s node par_node)
       else delete_case_six s node par_node)"

text \<open>\<^verbatim>\<open>RBTree._delete_case_four(child,parent)\<close>.\<close>

definition delete_case_four :: "'v tree \<Rightarrow> ref option \<Rightarrow> ref \<Rightarrow> error + 'v tree" where
  "delete_case_four s node par_node =
     andthen (sibling s node par_node) (\<lambda>sib_node.
       if color (heap s par_node) = Red \<and> sib_color s sib_node = Black
          \<and> sib_left_color s sib_node = Black \<and> sib_right_color s sib_node = Black then
         andthen (deref sib_node) (\<lambda>sb.
           Inr (set_color par_node Black (set_color sb Red s)))
       else delete_case_five s node par_node)"

text \<open>
  \<^verbatim>\<open>_delete_case_one\<close>, \<^verbatim>\<open>_delete_case_two\<close> and \<^verbatim>\<open>_delete_case_three\<close> call
  each other: case three starts again at the parent.
\<close>

fun delete_case_one :: "nat \<Rightarrow> 'v tree \<Rightarrow> ref option \<Rightarrow> ref option \<Rightarrow> error + 'v tree"
  and delete_case_two :: "nat \<Rightarrow> 'v tree \<Rightarrow> ref option \<Rightarrow> ref \<Rightarrow> error + 'v tree"
  and delete_case_three :: "nat \<Rightarrow> 'v tree \<Rightarrow> ref option \<Rightarrow> ref \<Rightarrow> error + 'v tree" where
  "delete_case_one 0 s child par = Inl NoReturn"
| "delete_case_one (Suc n) s child par =
     (case par of None \<Rightarrow> Inr s | Some par_node \<Rightarrow> delete_case_two n s child par_node)"
| "delete_case_two n s node par_node =
     andthen (sibling s node par_node) (\<lambda>sib_node.
       case sib_node of
         None \<Rightarrow> delete_case_three n s node par_node
       | Some sb \<Rightarrow>
           if color (heap s sb) = Red then
             (let s1 = set_color par_node Red (set_color sb Black s) in
              andthen (if left (heap s1 par_node) = node then rotate_left s1 par_node
                       else rb_rotate_right s1 par_node) (\<lambda>s2.
                delete_case_three n s2 node par_node))
           else delete_case_three n s node par_node)"
| "delete_case_three n s node par_node =
     andthen (sibling s node par_node) (\<lambda>sib_node.
       if color (heap s par_node) = Black \<and> sib_color s sib_node = Black
          \<and> sib_left_color s sib_node = Black \<and> sib_right_color s sib_node = Black then
         andthen (deref sib_node) (\<lambda>sb.
           let s1 = set_color sb Red s in
           delete_case_one n s1 (Some par_node) (parent (heap s1 par_node)))
       else delete_case_four s node par_node)"

text \<open>
  \<^verbatim>\<open>RBTree._delete_leaf(node)\<close>: \<^verbatim>\<open>new_node\<close> is \<^verbatim>\<open>None\<close> on both branches, and
  unbound when the node has no parent.
\<close>

definition rb_delete_leaf :: "nat \<Rightarrow> 'v tree \<Rightarrow> ref \<Rightarrow> error + 'v tree" where
  "rb_delete_leaf fuel s node =
     (let par_node = parent (heap s node); node_color = color (heap s node) in
      case par_node of
        None \<Rightarrow> if node_color = Black then Inl UnboundLocalError else Inr s
      | Some p \<Rightarrow>
          (let s1 = (if left (heap s p) = Some node then set_left p None s
                     else set_right p None s)
           in if node_color = Black then delete_case_one fuel s1 None par_node else Inr s1))"

text \<open>
  \<^verbatim>\<open>RBTree._delete_leaf_parent(node)\<close>.  At the root \<^verbatim>\<open>new_node\<close> is read from the
  link that has just been cleared.
\<close>

definition rb_delete_leaf_parent :: "nat \<Rightarrow> 'v tree \<Rightarrow> ref \<Rightarrow> error + 'v tree" where
  "rb_delete_leaf_parent fuel s node =
     (let par_node = parent (heap s node); node_color = color (heap s node) in
      andthen (case left (heap s node) of
                 Some l \<Rightarrow> Inr (color (heap s l))
               | None \<Rightarrow> andthen (deref (right (heap s node))) (\<lambda>r. Inr (color (heap s r))))
        (\<lambda>child_color.
      andthen (deref (Root s)) (\<lambda>rt.
      andthen
        (if key (heap s node) = key (heap s rt) then
           (if right (heap s node) \<noteq> None then
              (let s1 = s\<lparr>Root := right (heap s node)\<rparr> in
               andthen (deref (Root s1)) (\<lambda>nr.
                 let s2 = set_right node None (set_color nr Black s1)
                 in Inr (s2, right (heap s2 node))))
            else
              (let s1 = s\<lparr>Root := left (heap s node)\<rparr> in
               andthen (deref (Root s1)) (\<lambda>nr.
                 let s2 = set_left node None (set_color nr Black s1)
                 in Inr (s2, left (heap s2 node)))))
         else
           andthen (deref par_node) (\<lambda>p.
             if right (heap s p) = Some node then
               (let from_right = (right (heap s node) \<noteq> None);
                    s1 = set_right p (if from_right then right (heap s node)
                                      else left (heap s node)) s
                in andthen (deref (right (heap s1 p))) (\<lambda>c.
                     let s2 = set_parent c (Some p) s1;
                         s3 = (if from_right then set_right node None s2
                               else set_left node None s2)
                     in if node_color = Black \<and> child_color = Red then
                          andthen (deref (right (heap s3 p))) (\<lambda>c1.
                            let s4 = set_color c1 Black s3 in Inr (s4, right (heap s4 p)))
                        else Inr (s3, right (heap s3 p))))
             else
               (let from_right = (right (heap s node) \<noteq> None);
                    s1 = set_left p (if from_right then right (heap s node)
                                     else left (heap s node)) s
                in andthen (deref (left (heap s1 p))) (\<lambda>c.
                     let s2 = set_parent c (Some p) s1;
                         s3 = (if from_right then set_right node None s2
                               else set_left node None s2)
                     in if node_color = Black \<and> child_color = Red then
                          andthen (deref (left (heap s3 p))) (\<lambda>c1.
                            let s4 = set_color c1 Black s3 in Inr (s4, left (heap s4 p)))
                        else Inr (s3, left (heap s3 p))))))
        (\<lambda>(s5, new_node).
           if node_color = Black \<and> child_color = Black
           then delete_case_one fuel s5 new_node par_node
           else Inr s5))))"

section \<open>splaytree.py\<close>

text \<open>
  \<^verbatim>\<open>SplayTree._rotate_to_root(node)\<close>.  The recursive call is made whenever the
  node has a parent link, also when none of the five shapes matched.
\<close>

fun rotate_to_root :: "nat \<Rightarrow> 'v tree \<Rightarrow> ref \<Rightarrow> error + 'v tree" where
  "rotate_to_root 0 s node = Inl NoReturn"
| "rotate_to_root (Suc n) s node =
     (case parent (heap s node) of
        None \<Rightarrow> Inr s
      | Some par \<Rightarrow>
          andthen
            (case parent (heap s par) of
               None \<Rightarrow>
                 if left (heap s par) = Some node then rotate_right s par
                 else rotate_left s par
             | Some grandparent \<Rightarrow>
                 if left (heap s grandparent) = Some par \<and> left (heap s par) = Some node then
                   andthen (rotate_right s grandparent) (\<lambda>s1. rotate_right s1 par)
                 else if right (heap s grandparent) = Some par \<and> right (heap s par) = Some node then
                   andthen (rotate_left s grandparent) (\<lambda>s1. rotate_left s1 par)
                 else if left (heap s grandparent) = Some par \<and> right (heap s par) = Some node then
                   andthen (rotate_left s par) (\<lambda>s1. rotate_right s1 grandparent)
                 else if right (heap s grandparent) = Some par \<and> left (heap s par) = Some node then
                   andthen (rotate_right s par) (\<lambda>s1. rotate_left s1 grandparent)
                 else Inr s)
            (\<lambda>s2. rotate_to_root n s2 node))"

text \<open>
  \<^verbatim>\<open>SplayTree.get_node(key, start)\<close>: the search of \<^verbatim>\<open>BSTree.get_node\<close>, and the
  node found is rotated to the root.  The result is the node and the tree after it.
\<close>

fun splay_get_node :: "nat \<Rightarrow> 'v tree \<Rightarrow> int \<Rightarrow> ref option \<Rightarrow> error + (ref option \<times> 'v tree)" where
  "splay_get_node 0 s k start = Inl NoReturn"
| "splay_get_node (Suc n) s k None = Inr (None, s)"
| "splay_get_node (Suc n) s k (Some r) =
     (if k = key (heap s r) then
        andthen (rotate_to_root (Suc n) s r) (\<lambda>s1. Inr (Some r, s1))
      else if k > key (heap s r) then splay_get_node n s k (right (heap s r))
      else splay_get_node n s k (left (heap s r)))"

text \<open>
  \<^verbatim>\<open>SplayTree._get_node_without_splaying(key, start)\<close> calls \<^verbatim>\<open>BSTree.get_node\<close>
  on the Splay tree.  The first comparison is the one of \<^verbatim>\<open>BSTree.get_node\<close>; its
  recursive call \<^verbatim>\<open>self.get_node(key, start.right)\<close> is \<^verbatim>\<open>SplayTree.get_node\<close>,
  which rotates the node it finds to the root.  Only a key at \<^verbatim>\<open>start\<close> itself is found
  without a rotation.
\<close>

definition get_node_without_splaying ::
  "nat \<Rightarrow> 'v tree \<Rightarrow> int \<Rightarrow> ref option \<Rightarrow> error + (ref option \<times> 'v tree)" where
  "get_node_without_splaying fuel s k start =
     (case start of
        None \<Rightarrow> Inr (None, s)
      | Some r \<Rightarrow>
          if k = key (heap s r) then Inr (Some r, s)
          else if k > key (heap s r) then splay_get_node fuel s k (right (heap s r))
          else splay_get_node fuel s k (left (heap s r)))"

text \<open>
  \<^verbatim>\<open>SplayTree.insert(key,value,parent)\<close> and \<^verbatim>\<open>SplayTree.insert(key,value)\<close>.  The
  second searches the key first, and that search may already have rotated the tree; the
  inner call \<^verbatim>\<open>self.insert(key,value,self.Root)\<close> reads the root after it.
\<close>

fun splay_insert_at :: "nat \<Rightarrow> 'v tree \<Rightarrow> int \<Rightarrow> 'v \<Rightarrow> ref \<Rightarrow> error + 'v tree" where
  "splay_insert_at 0 s k v p = Inl NoReturn"
| "splay_insert_at (Suc n) s k v p =
     (if k > key (heap s p) then
        (case right (heap s p) of
           None \<Rightarrow>
             (let (child, s1) = alloc k v s
              in rotate_to_root (Suc n)
                   (set_parent child (Some p) (set_right p (Some child) s1)) child)
         | Some r \<Rightarrow> splay_insert_at n s k v r)
      else
        (case left (heap s p) of
           None \<Rightarrow>
             (let (child, s1) = alloc k v s
              in rotate_to_root (Suc n)
                   (set_parent child (Some p) (set_left p (Some child) s1)) child)
         | Some l \<Rightarrow> splay_insert_at n s k v l))"

definition splay_insert :: "nat \<Rightarrow> 'v tree \<Rightarrow> int \<Rightarrow> 'v \<Rightarrow> error + 'v tree" where
  "splay_insert fuel s k v =
     (case Root s of
        None \<Rightarrow> (let (r, s1) = alloc k v s in Inr (s1\<lparr>Root := Some r\<rparr>))
      | Some rt \<Rightarrow>
          andthen (get_node_without_splaying fuel s k (Root s)) (\<lambda>(found, s1).
            if found = None then
              (case Root s1 of
                 None \<Rightarrow> (let (r, s2) = alloc k v s1 in Inr (s2\<lparr>Root := Some r\<rparr>))
               | Some rt1 \<Rightarrow> splay_insert_at fuel s1 k v rt1)
            else Inr s1))"

text \<open>
  \<^verbatim>\<open>SplayTree._delete_leaf(node)\<close>; \<^verbatim>\<open>SplayTree._delete_leaf_parent\<close> has the
  statements of \<^verbatim>\<open>BSTree._delete_leaf_parent\<close>.
\<close>

definition splay_delete_leaf :: "'v tree \<Rightarrow> ref \<Rightarrow> error + 'v tree" where
  "splay_delete_leaf s node =
     (case parent (heap s node) of
        None \<Rightarrow> Inr (s\<lparr>Root := None\<rparr>)
      | Some par_node \<Rightarrow>
          if left (heap s par_node) = Some node then Inr (set_left par_node None s)
          else Inr (set_right par_node None s))"

section \<open>Deleting a key\<close>

text \<open>
  \<^verbatim>\<open>self._delete_leaf(node)\<close> and \<^verbatim>\<open>self._delete_leaf_parent(node)\<close>, resolved by
  the class of the tree.
\<close>

definition delete_leaf :: "variant \<Rightarrow> nat \<Rightarrow> 'v tree \<Rightarrow> ref \<Rightarrow> error + 'v tree" where
  "delete_leaf v fuel s node =
     (case v of
        BST \<Rightarrow> bst_delete_leaf s node
      | AVL \<Rightarrow> avl_delete_leaf fuel s node
      | RB \<Rightarrow> rb_delete_leaf fuel s node
      | Splay \<Rightarrow> splay_delete_leaf s node)"

definition delete_leaf_parent :: "variant \<Rightarrow> nat \<Rightarrow> 'v tree \<Rightarrow> ref \<Rightarrow> error + 'v tree" where
  "delete_leaf_parent v fuel s node =
     (case v of
        BST \<Rightarrow> bst_delete_leaf_parent s node
      | AVL \<Rightarrow> avl_delete_leaf_parent fuel s node
      | RB \<Rightarrow> rb_delete_leaf_parent fuel s node
      | Splay \<Rightarrow> bst_delete_leaf_parent s node)"

text \<open>
  \<^verbatim>\<open>BSTree._delete_node(node)\<close>, which \<^verbatim>\<open>RBTree\<close> calls and \<^verbatim>\<open>AVLTree\<close> and
  \<^verbatim>\<open>SplayTree\<close> repeat word for word.
\<close>

definition delete_node :: "variant \<Rightarrow> nat \<Rightarrow> 'v tree \<Rightarrow> ref \<Rightarrow> error + 'v tree" where
  "delete_node v fuel s node =
     andthen (get_height fuel s (left (heap s node))) (\<lambda>hl.
     andthen (get_height fuel s (right (heap s node))) (\<lambda>hr.
       if hl > hr then
         andthen (get_max fuel s (left (heap s node))) (\<lambda>to_switch.
         andthen (switch_nodes s node to_switch) (\<lambda>s1.
           if \<not> (right (heap s1 to_switch) \<noteq> None \<or> left (heap s1 to_switch) \<noteq> None) then
             andthen (get_max fuel s1 (left (heap s1 node))) (\<lambda>to_delete.
               delete_leaf v fuel s1 to_delete)
           else
             andthen (get_max fuel s1 (left (heap s1 node))) (\<lambda>to_delete.
               delete_leaf_parent v fuel s1 to_delete)))
       else
         andthen (get_min fuel s (right (heap s node))) (\<lambda>to_switch.
         andthen (switch_nodes s node to_switch) (\<lambda>s1.
           if \<not> (right (heap s1 to_switch) \<noteq> None \<or> left (heap s1 to_switch) \<noteq> None) then
             andthen (get_min fuel s1 (right (heap s1 node))) (\<lambda>to_delete.
               delete_leaf v fuel s1 to_delete)
           else
             andthen (get_min fuel s1 (right (heap s1 node))) (\<lambda>to_delete.
               delete_leaf_parent v fuel s1 to_delete)))))"

text \<open>
  The three-way choice in every \<^verbatim>\<open>delete\<close>.  \<^verbatim>\<open>RBTree.delete\<close> skips a leaf that
  has no parent.
\<close>

definition delete_found :: "variant \<Rightarrow> nat \<Rightarrow> 'v tree \<Rightarrow> ref \<Rightarrow> error + 'v tree" where
  "delete_found v fuel s node =
     (if \<not> (left (heap s node) \<noteq> None \<or> right (heap s node) \<noteq> None) then
        (if v = RB \<and> parent (heap s node) = None then Inr s
         else delete_leaf v fuel s node)
      else if \<not> (left (heap s node) \<noteq> None \<and> right (heap s node) \<noteq> None) then
        delete_leaf_parent v fuel s node
      else delete_node v fuel s node)"

text \<open>
  The search every \<^verbatim>\<open>delete\<close> starts with: \<^verbatim>\<open>self.get_node(key,self.Root)\<close> in
  \<^verbatim>\<open>BSTree\<close>, \<^verbatim>\<open>AVLTree\<close> and \<^verbatim>\<open>RBTree\<close>, which leaves the tree as it is, and
  \<^verbatim>\<open>self._get_node_without_splaying(key,self.Root)\<close> in \<^verbatim>\<open>SplayTree\<close>.  The result
  is the node and the tree after the search.
\<close>

definition search_key ::
  "variant \<Rightarrow> nat \<Rightarrow> 'v tree \<Rightarrow> int \<Rightarrow> error + (ref option \<times> 'v tree)" where
  "search_key v fuel s k =
     (if v = Splay then get_node_without_splaying fuel s k (Root s)
      else andthen (get_node fuel s k (Root s)) (\<lambda>found. Inr (found, s)))"

text \<open>
  \<^verbatim>\<open>BSTree.delete(key)\<close>, \<^verbatim>\<open>AVLTree.delete\<close>, \<^verbatim>\<open>RBTree.delete\<close>, and
  \<^verbatim>\<open>SplayTree.delete\<close>, which reads \<^verbatim>\<open>node.parent\<close> before it tests \<^verbatim>\<open>node\<close>
  and rotates that parent to the root in the end.
\<close>

definition delete :: "variant \<Rightarrow> nat \<Rightarrow> 'v tree \<Rightarrow> int \<Rightarrow> error + 'v tree" where
  "delete v fuel s k =
     andthen (search_key v fuel s k) (\<lambda>(found, s0).
       if v = Splay then
         andthen (deref found) (\<lambda>node.
           let par = parent (heap s0 node) in
           andthen (delete_found v fuel s0 node) (\<lambda>s1.
             case par of None \<Rightarrow> Inr s1 | Some p \<Rightarrow> rotate_to_root fuel s1 p))
       else
         (case found of None \<Rightarrow> Inr s0 | Some node \<Rightarrow> delete_found v fuel s0 node))"

text \<open>\<^verbatim>\<open>insert(key,value)\<close> and \<^verbatim>\<open>get_node(key)\<close> of each class.\<close>

definition insert_key :: "variant \<Rightarrow> nat \<Rightarrow> 'v tree \<Rightarrow> int \<Rightarrow> 'v \<Rightarrow> error + 'v tree" where
  "insert_key v fuel s k x =
     (case v of
        BST \<Rightarrow> bst_insert fuel s k x
      | AVL \<Rightarrow> avl_insert fuel s k x
      | RB \<Rightarrow> rb_insert fuel s k x
      | Splay \<Rightarrow> splay_insert fuel s k x)"

definition find_key :: "variant \<Rightarrow> nat \<Rightarrow> 'v tree \<Rightarrow> int \<Rightarrow> error + (ref option \<times> 'v tree)" where
  "find_key v fuel s k =
     (if v = Splay then splay_get_node fuel s k (Root s)
      else andthen (get_node fuel s k (Root s)) (\<lambda>found. Inr (found, s)))"

text \<open>\<^verbatim>\<open>get_height()\<close> and \<^verbatim>\<open>get_element_count()\<close> without an argument.\<close>

definition tree_height :: "nat \<Rightarrow> 'v tree \<Rightarrow> error + int" where
  "tree_height fuel s = get_height fuel s (Root s)"

definition tree_count :: "nat \<Rightarrow> 'v tree \<Rightarrow> error + nat" where
  "tree_count fuel s = get_element_count fuel s (Root s)"

section \<open>Sequences of public calls\<close>

datatype 'v op = Insert int 'v | Delete int | Find int

fun apply_op :: "variant \<Rightarrow> nat \<Rightarrow> 'v tree \<Rightarrow> 'v op \<Rightarrow> error + 'v tree" where
  "apply_op v fuel s (Insert k x) = insert_key v fuel s k x"
| "apply_op v fuel s (Delete k) = delete v fuel s k"
| "apply_op v fuel s (Find k) = andthen (find_key v fuel s k) (\<lambda>(found, s1). Inr s1)"

text \<open>A sequence of calls stops at the first one that raises.\<close>

fun run :: "variant \<Rightarrow> nat \<Rightarrow> 'v tree \<Rightarrow> 'v op list \<Rightarrow> error + 'v tree" where
  "run v fuel s [] = Inr s"
| "run v fuel s (c # cs) = andthen (apply_op v fuel s c) (\<lambda>s1. run v fuel s1 cs)"

text \<open>What a node holds for the user of the tree: its key and its value.\<close>

definition contents :: "'v tree \<Rightarrow> ref \<Rightarrow> int \<times> 'v" where
  "contents s r = (key (heap s r), val (heap s r))"

text \<open>
  A node is out of the tree when nothing refers to it: it is not the root and no node has it
  as left child, right child or parent.
\<close>

definition unreferenced :: "'v tree \<Rightarrow> ref \<Rightarrow> bool" where
  "unreferenced s m \<longleftrightarrow>
     Root s \<noteq> Some m \<and>
     (\<forall>q. left (heap s q) \<noteq> Some m \<and> right (heap s q) \<noteq> Some m \<and>
          parent (heap s q) \<noteq> Some m)"

section \<open>Evaluation and basic facts\<close>

lemma andthen_Inr [simp]: "andthen (Inr x) f = f x"
  by (simp add: andthen_def)

lemma andthen_Inl [simp]: "andthen (Inl e) f = Inl e"
  by (simp add: andthen_def)

text \<open>
  Only the first argument of \<open>andthen\<close> is rewritten until it is a result or an exception:
  a run on a concrete tree is then evaluated call by call.
\<close>

lemma andthen_cong [cong]: "m = m' \<Longrightarrow> andthen m f = andthen m' f"
  by simp


text \<open>Writes to different objects commute; sorted by address, a concrete store has one form.\<close>

lemma heap_upd_twist: "b < a \<Longrightarrow> (f(a := x))(b := y) = (f(b := y))(a := x)" for a b :: nat
  by (rule fun_upd_twist) simp

lemmas field_defs = set_left_def set_right_def set_parent_def set_key_def set_val_def
  set_height_def set_balance_def set_color_def alloc_def new_node_def empty_tree_def deref_def

lemmas call_defs = insert_key_def find_key_def search_key_def delete_def delete_found_def delete_leaf_def
  delete_leaf_parent_def delete_node_def switch_nodes_def tree_height_def tree_count_def
  preorder_def inorder_def postorder_def levelorder_def

lemmas bst_defs = bst_insert_def bst_delete_leaf_def bst_delete_leaf_parent_def

lemmas avl_defs = avl_insert_def avl_delete_leaf_def avl_delete_leaf_parent_def
  bst_delete_leaf_parent_def rotate_left_def rotate_right_def avl_rotate_left_def
  avl_rotate_right_def avl_balance_def balance_upwards_def get_balance_def

lemmas rb_defs = rb_insert_def rb_delete_leaf_def rb_delete_leaf_parent_def
  insert_case_four_def insert_case_five_def rotate_left_def rotate_right_def rb_rotate_right_def
  delete_case_four_def delete_case_five_def delete_case_six_def sibling_def sib_color_def
  sib_left_color_def sib_right_color_def color_or_black_def

lemmas splay_defs = splay_insert_def get_node_without_splaying_def splay_delete_leaf_def bst_delete_leaf_parent_def
  rotate_left_def rotate_right_def

lemma get_node_Root_Some: "get_node fuel s k start = Inr (Some n) \<Longrightarrow> start \<noteq> None"
  by (cases fuel; cases start) auto

section \<open>Height and element count of the empty tree\<close>

text \<open>
  C9, as the source has it: for every variant (all four use \<^verbatim>\<open>BSTree.get_height\<close> and
  \<^verbatim>\<open>BSTree.get_element_count\<close>) the height query returns 0 for \<^verbatim>\<open>None\<close> and for the
  empty tree, and 0 again for the tree that holds a single node, so the height does not
  tell the two apart; the element count of the empty tree is 0.
\<close>

theorem height_and_count_of_empty:
  "get_height (Suc n) s None = Inr 0 \<and> get_element_count (Suc n) s None = Inr 0 \<and>
   tree_height (Suc n) (empty_tree d) = Inr 0 \<and> tree_count (Suc n) (empty_tree d) = Inr 0 \<and>
   (\<exists>s1. insert_key v fuel (empty_tree d) k x = Inr s1 \<and> tree_height (Suc n) s1 = Inr 0)"
  by (cases v) (simp_all add: call_defs field_defs bst_insert_def avl_insert_def rb_insert_def
      splay_insert_def)

text \<open>
  C9 as stated asks for height \<open>-1\<close> on the empty tree, different from the height 0 of a
  single leaf.  The empty plain tree has height 0.
\<close>

theorem height_of_empty_is_not_minus_one:
  "tree_height 5 (empty_tree ()) = Inr 0 \<and> tree_height 5 (empty_tree ()) \<noteq> Inr (- 1)"
  by (simp add: call_defs field_defs eval_nat_numeral)

section \<open>Runs on which the code leaves its invariants\<close>

lemmas eval_simps = eval_nat_numeral call_defs field_defs heap_upd_twist Let_def

text \<open>
  C2 (insert N distinct keys, delete them all, and the root reference is empty) against the
  code.  \<^verbatim>\<open>BSTree._delete_leaf\<close> does nothing for a node without a parent and
  \<^verbatim>\<open>RBTree.delete\<close> skips such a leaf, so the last key of a plain or Red-Black tree
  is never removed.  \<^verbatim>\<open>_delete_leaf_parent\<close> leaves the old parent link on the node
  it makes the root, so \<^verbatim>\<open>AVLTree._delete_leaf\<close> and \<^verbatim>\<open>SplayTree._delete_leaf\<close>
  take that node for an inner leaf and keep it as the root.  After these four runs the
  root still holds a key.
\<close>

theorem delete_all_keeps_root:
  "(case run BST 5 (empty_tree ()) [Insert 1 (), Delete 1] of
      Inr s \<Rightarrow> Root s = Some 0 \<and> key (heap s 0) = 1 | Inl e \<Rightarrow> False) \<and>
   (case run RB 5 (empty_tree ()) [Insert 1 (), Delete 1] of
      Inr s \<Rightarrow> Root s = Some 0 \<and> key (heap s 0) = 1 | Inl e \<Rightarrow> False) \<and>
   (case run AVL 5 (empty_tree ()) [Insert 1 (), Insert 2 (), Delete 1, Delete 2] of
      Inr s \<Rightarrow> Root s = Some 1 \<and> key (heap s 1) = 2 | Inl e \<Rightarrow> False) \<and>
   (case run Splay 5 (empty_tree ()) [Insert 1 (), Insert 2 (), Delete 2, Delete 1] of
      Inr s \<Rightarrow> Root s = Some 0 \<and> key (heap s 0) = 1 | Inl e \<Rightarrow> False)"
  by (simp add: eval_simps bst_defs rb_defs avl_defs splay_defs cong: let_weak_cong)

text \<open>
  C3 (after every insert or delete of the Red-Black tree the root is black, \<dots>) against the
  code.  Deleting the root 1 makes node 2 the root with its parent link still at node 1;
  inserting 3 and 4 then rotates left at node 2, which is recoloured red, and the rotation
  neither moves \<^verbatim>\<open>self.Root\<close> nor relinks: the root is node 2, red, and the keys 3 and
  4 are no longer reachable.
\<close>

theorem rb_root_red_after_insert:
  "(case run RB 5 (empty_tree ()) [Insert 1 (), Insert 2 (), Delete 1, Insert 3 (), Insert 4 ()] of
      Inr s \<Rightarrow> map_option (\<lambda>r. (key (heap s r), color (heap s r))) (Root s) = Some (2, Red) \<and>
               get_node 5 s 3 (Root s) = Inr None
    | Inl e \<Rightarrow> False)"
  by (simp add: eval_simps rb_defs cong: let_weak_cong)

text \<open>
  C1 (the inorder traversal is strictly increasing by key after any sequence of inserts and
  deletes) against the code.  After the root 10 is deleted, rotations at the new root 20
  do not move \<^verbatim>\<open>self.Root\<close>; nodes that are cut off keep their links into the tree, and
  the last rotation brings node 25 back below the root with key 28 in its left subtree.
  Every call of this run returns, and the inorder traversal of the Red-Black tree lists the
  keys 12, 20, 28, 25, 27.
\<close>

theorem rb_inorder_out_of_order:
  "(case run RB 10 (empty_tree ())
           [Insert 10 (), Insert 20 (), Delete 10, Insert 30 (), Insert 40 (), Insert 25 (),
            Insert 27 (), Insert 28 (), Insert 12 ()] of
      Inr s \<Rightarrow> map_sum id (map (\<lambda>r. key (heap s r))) (inorder 10 s) = Inr [12, 20, 28, 25, 27]
    | Inl e \<Rightarrow> False)"
  by (simp add: eval_simps rb_defs cong: let_weak_cong)

text \<open>
  C4 (after every insert or delete of the AVL tree every node has \<open>|balance| \<le> 1\<close>, \<dots>)
  against the code.  \<^verbatim>\<open>AVLTree._delete_leaf\<close> rebalances the first unbalanced ancestor
  and stops.  Twelve keys inserted level by level give a tree that needs no rotation;
  deleting key 1 rotates at node 2, the left subtree of the root loses a level, and the root
  5 is left with balance \<open>-2\<close>, stored and recomputed.
\<close>

theorem avl_root_unbalanced_after_delete:
  "(case run AVL 20 (empty_tree ())
           [Insert 5 (), Insert 2 (), Insert 8 (), Insert 1 (), Insert 3 (), Insert 7 (),
            Insert 10 (), Insert 4 (), Insert 6 (), Insert 9 (), Insert 11 (), Insert 12 (),
            Delete 1] of
      Inr s \<Rightarrow> map_option (\<lambda>r. (key (heap s r), balance (heap s r))) (Root s) = Some (5, - 2) \<and>
               get_balance s (Root s) = Inr (- 2)
    | Inl e \<Rightarrow> False)"
  by (simp add: eval_simps avl_defs cong: let_weak_cong)

text \<open>
  Deleting a key that the search does not find: \<^verbatim>\<open>BSTree.delete\<close>,
  \<^verbatim>\<open>AVLTree.delete\<close> and \<^verbatim>\<open>RBTree.delete\<close> return the tree as it is;
  \<^verbatim>\<open>SplayTree.delete\<close> raises.
\<close>

lemma delete_absent_unchanged:
  "v \<noteq> Splay \<Longrightarrow> get_node fuel s k (Root s) = Inr None \<Longrightarrow> delete v fuel s k = Inr s"
  by (simp add: delete_def search_key_def)

lemma splay_delete_absent:
  "search_key Splay fuel s k = Inr (None, s0) \<Longrightarrow> delete Splay fuel s k = Inl AttributeError"
  by (simp add: delete_def deref_def)

text \<open>
  C7 (deleting or finding an absent key is a no-op without an error, in every variant)
  against the code.  \<^verbatim>\<open>SplayTree.delete\<close> reads \<^verbatim>\<open>node.parent\<close> before it tests
  \<^verbatim>\<open>node\<close>: on the empty tree, and on a tree that holds only key 1 when key 2 is
  deleted, the call raises \<^verbatim>\<open>AttributeError\<close>.  The search for the absent key itself
  returns \<^verbatim>\<open>None\<close>.
\<close>

theorem splay_delete_absent_raises:
  "delete Splay 5 (empty_tree ()) 1 = Inl AttributeError \<and>
   run Splay 5 (empty_tree ()) [Insert 1 (), Delete 2] = Inl AttributeError \<and>
   (case run Splay 5 (empty_tree ()) [Insert 1 ()] of
      Inr s \<Rightarrow> get_node 5 s 2 (Root s) = Inr None | Inl e \<Rightarrow> False)"
  by (simp add: eval_simps splay_defs cong: let_weak_cong)

text \<open>
  C10 (each of the four traversals returns the sequence of the tree's nodes, the empty
  sequence for the empty tree, without an error) against the code.  On the empty tree
  \<^verbatim>\<open>preorder\<close>, \<^verbatim>\<open>inorder\<close> and \<^verbatim>\<open>postorder\<close> read \<^verbatim>\<open>None.left\<close>.
  \<^verbatim>\<open>levelorder\<close> raises on every tree: in \<^verbatim>\<open>BSTree\<close> the search for the popped node
  object comes back with \<^verbatim>\<open>None\<close>, whichever way a node compares with a number, and the
  three subclasses refer to a name \<^verbatim>\<open>args\<close> they do not have.
\<close>

theorem traversals_raise:
  "preorder 5 (empty_tree ()) = Inl AttributeError \<and>
   inorder 5 (empty_tree ()) = Inl AttributeError \<and>
   postorder 5 (empty_tree ()) = Inl AttributeError \<and>
   levelorder BST 5 True (empty_tree ()) = Inl AttributeError \<and>
   levelorder BST 5 False (empty_tree ()) = Inl AttributeError \<and>
   (case run BST 5 (empty_tree ()) [Insert 2 (), Insert 1 (), Insert 3 ()] of
      Inr s \<Rightarrow> preorder 5 s = Inr [0, 1, 2] \<and>
               levelorder BST 5 True s = Inl AttributeError \<and>
               levelorder BST 5 False s = Inl AttributeError \<and>
               levelorder AVL 5 True s = Inl NameError \<and>
               levelorder RB 5 True s = Inl NameError \<and>
               levelorder Splay 5 True s = Inl NameError
    | Inl e \<Rightarrow> False)"
  by (simp add: eval_simps bst_defs cong: let_weak_cong)

section \<open>A splay that does not come back\<close>

text \<open>
  When the grandparent a node sees through its parent links has no children, none of the
  five shapes of \<^verbatim>\<open>_rotate_to_root\<close> matches, nothing is rotated, and the method calls
  itself on the same tree again: it returns for no number of steps.
\<close>

lemma rotate_to_root_stale:
  "parent (heap s node) = Some p \<Longrightarrow> parent (heap s p) = Some g \<Longrightarrow>
   left (heap s g) = None \<Longrightarrow> right (heap s g) = None \<Longrightarrow>
   rotate_to_root fuel s node = Inl NoReturn"
  by (induction fuel) simp_all

text \<open>
  C6 (after \<^verbatim>\<open>find(k)\<close> of a present key and after \<^verbatim>\<open>insert(k, v)\<close> of a new key the
  node of \<open>k\<close> is the root of the Splay tree) against the code.  Deleting the root 3
  makes node 2 the root and leaves its parent link at the removed node.  Key 1 is then in
  the tree and key 4 is not; \<^verbatim>\<open>get_node(1)\<close> finds node 1 below the root and
  \<^verbatim>\<open>insert(4, v)\<close> links a new node below the root, and in both calls
  \<^verbatim>\<open>_rotate_to_root\<close> never returns, so neither node becomes the root.
\<close>

theorem splay_access_never_returns:
  "\<exists>s. run Splay 5 (empty_tree ()) [Insert 1 (), Insert 2 (), Insert 3 (), Delete 3] = Inr s \<and>
       Root s = Some 1 \<and> key (heap s 1) = 2 \<and> get_node 5 s 1 (Root s) = Inr (Some 0) \<and>
       get_node 5 s 4 (Root s) = Inr None \<and>
       (\<forall>fuel. find_key Splay fuel s 1 = Inl NoReturn) \<and>
       (\<forall>fuel. insert_key Splay fuel s 4 () = Inl NoReturn)"
proof -
  define s where
    "s = (case run Splay 5 (empty_tree ()) [Insert 1 (), Insert 2 (), Insert 3 (), Delete 3] of
            Inr t \<Rightarrow> t | Inl e \<Rightarrow> empty_tree ())"
  have ran: "run Splay 5 (empty_tree ()) [Insert 1 (), Insert 2 (), Insert 3 (), Delete 3] = Inr s"
    unfolding s_def by (simp add: eval_simps splay_defs cong: let_weak_cong)
  have root: "Root s = Some (Suc 0)" and fresh: "fresh s = Suc (Suc (Suc 0))"
    and k1: "key (heap s (Suc 0)) = 2" and k0: "key (heap s 0) = 1"
    and l1: "left (heap s (Suc 0)) = Some 0" and r1: "right (heap s (Suc 0)) = None"
    and p0: "parent (heap s 0) = Some (Suc 0)"
    and p1: "parent (heap s (Suc 0)) = Some (Suc (Suc 0))"
    and l2: "left (heap s (Suc (Suc 0))) = None" and r2: "right (heap s (Suc (Suc 0))) = None"
    unfolding s_def by (simp_all add: eval_simps splay_defs cong: let_weak_cong)
  have stuck: "rotate_to_root fuel s 0 = Inl NoReturn" for fuel
    using p0 p1 l2 r2 by (rule rotate_to_root_stale)
  have found: "get_node 5 s 1 (Root s) = Inr (Some 0)"
    by (simp add: eval_nat_numeral root k1 k0 l1)
  have absent: "get_node 5 s 4 (Root s) = Inr None"
    by (simp add: eval_nat_numeral root k1 r1)
  have find: "find_key Splay fuel s 1 = Inl NoReturn" for fuel
  proof (cases fuel)
    case 0
    then show ?thesis by (simp add: find_key_def root)
  next
    case (Suc n)
    then show ?thesis
      by (cases n) (simp_all add: find_key_def root k1 k0 l1 stuck)
  qed
  have ins: "insert_key Splay fuel s 4 () = Inl NoReturn" for fuel
  proof (cases fuel)
    case 0
    then show ?thesis
      by (simp add: insert_key_def splay_insert_def get_node_without_splaying_def root k1)
  next
    case (Suc n)
    have "rotate_to_root (Suc n)
            (set_parent (fresh s) (Some (Suc 0))
               (set_right (Suc 0) (Some (fresh s)) (snd (alloc 4 () s))))
            (fresh s) = Inl NoReturn"
      by (rule rotate_to_root_stale [where p = "Suc 0" and g = "Suc (Suc 0)"])
         (simp_all add: field_defs fresh p1 l2 r2)
    moreover have "insert_key Splay (Suc n) s 4 () =
        rotate_to_root (Suc n)
          (set_parent (fresh s) (Some (Suc 0))
             (set_right (Suc 0) (Some (fresh s)) (snd (alloc 4 () s))))
          (fresh s)"
      by (simp add: insert_key_def splay_insert_def get_node_without_splaying_def root k1 r1
            alloc_def del: rotate_to_root.simps)
    ultimately show ?thesis
      using Suc by simp
  qed
  show ?thesis
  proof (intro exI [of _ s] conjI allI)
    show "Root s = Some 1" by (simp add: root)
    show "key (heap s 1) = 2" by (simp add: k1)
  qed (rule ran found absent find ins)+
qed

section \<open>Inserting a key that is present\<close>

text \<open>
  \<^verbatim>\<open>BSTree.insert\<close>, \<^verbatim>\<open>AVLTree.insert\<close> and \<^verbatim>\<open>RBTree.insert\<close> return the tree
  they were given when the search finds the key; \<^verbatim>\<open>SplayTree.insert\<close> does so when the
  key is at the root.
\<close>

lemma plain_insert_present_unchanged:
  "v \<noteq> Splay \<Longrightarrow> get_node fuel s k (Root s) = Inr (Some n) \<Longrightarrow> insert_key v fuel s k x = Inr s"
proof -
  assume plain: "v \<noteq> Splay" and found: "get_node fuel s k (Root s) = Inr (Some n)"
  then obtain rt where rt: "Root s = Some rt"
    using get_node_Root_Some by fastforce
  show ?thesis
    using plain found rt
    by (cases v) (simp_all add: insert_key_def bst_insert_def avl_insert_def rb_insert_def)
qed

lemma splay_insert_root_key_unchanged:
  "Root s = Some rt \<Longrightarrow> key (heap s rt) = k \<Longrightarrow> insert_key Splay fuel s k x = Inr s"
  by (simp add: insert_key_def splay_insert_def get_node_without_splaying_def)

text \<open>
  C8 (inserting a key that is present leaves the tree completely unchanged, in every
  variant) against the code.  \<^verbatim>\<open>SplayTree.insert\<close> searches the key with
  \<^verbatim>\<open>_get_node_without_splaying\<close>, documented to find the node ``without rotating it to
  the root''; below the root that search runs \<^verbatim>\<open>SplayTree.get_node\<close> and rotates.
  After the inserts of 1 and 2 the root is the node of 2 with the node of 1 as left child;
  \<^verbatim>\<open>insert(1, 'c')\<close> keeps the value \<^verbatim>\<open>'a'\<close> but returns a tree whose root is the
  node of 1, with the node of 2 as its right child.
\<close>

theorem splay_insert_present_rotates:
  "(case run Splay 5 (empty_tree []) [Insert 1 ''a'', Insert 2 ''b''] of
      Inr s \<Rightarrow>
        Root s = Some 1 \<and> left (heap s 1) = Some 0 \<and> right (heap s 0) = None \<and>
        get_node 5 s 1 (Root s) = Inr (Some 0) \<and> val (heap s 0) = ''a'' \<and>
        (case insert_key Splay 5 s 1 ''c'' of
           Inr t \<Rightarrow> Root t = Some 0 \<and> right (heap t 0) = Some 1 \<and> left (heap t 1) = None \<and>
                    val (heap t 0) = ''a''
         | Inl e \<Rightarrow> False)
    | Inl e \<Rightarrow> False)"
  by (simp add: eval_simps splay_defs cong: let_weak_cong)

section \<open>Keys and values under delete\<close>

text \<open>
  Rotations, the height and balance updates, the recolouring cases and the unlinking of a
  node write links, heights, balances and colours only.
\<close>

lemma contents_set [simp]:
  "contents (set_left r x s) = contents s"
  "contents (set_right r x s) = contents s"
  "contents (set_parent r x s) = contents s"
  "contents (set_height r h s) = contents s"
  "contents (set_balance r h s) = contents s"
  "contents (set_color r c s) = contents s"
  "contents (s\<lparr>Root := y\<rparr>) = contents s"
  by (auto simp: contents_def field_defs fun_eq_iff)









































section \<open>A removed node stays removed\<close>

text \<open>
  The height and balance updates and the recolourings write no link.  A rotation writes
  its pivot and links it has read from the tree, and every pivot of the rebalancing after
  a delete is the parent of the removed node or a node read from a link.
\<close>

lemma unreferenced_set [simp]:
  "unreferenced (set_height r h s) m = unreferenced s m"
  "unreferenced (set_balance r h s) m = unreferenced s m"
  "unreferenced (set_color r c s) m = unreferenced s m"
  by (auto simp: unreferenced_def field_defs)
























section \<open>Delete of a node with two children\<close>




end
